theory Spec2Isabelle
  imports Main
begin

section \<open>The result model\<close>

text \<open>
  The library represents the outcome of an operation as a tagged union of two object
  shapes: \<^verbatim>\<open>{ success: true, data }\<close> and \<^verbatim>\<open>{ success: false, error }\<close>.
  The discriminant \<^verbatim>\<open>success\<close> is the discriminator of the datatype, the read-only
  fields \<^verbatim>\<open>data\<close> and \<^verbatim>\<open>error\<close> are its selectors.
\<close>

datatype ('t, 'e) Result = success: Ok (data: 't) | Err (error: 'e)

text \<open>
  What \<^verbatim>\<open>new Error(message)\<close> builds, as far as a caller can tell two thrown objects
  apart: the \<^verbatim>\<open>name\<close> the object inherits from its class and its \<^verbatim>\<open>message\<close>.
\<close>

record js_error =
  name :: string
  message :: string

definition new_Error :: "string \<Rightarrow> js_error" where
  "new_Error m = \<lparr>name = ''Error'', message = m\<rparr>"

text \<open>
  A value of static type \<^verbatim>\<open>T | undefined\<close> or \<^verbatim>\<open>T | null\<close>. The unions of the source
  are untagged, so the payload type of a result that is unwrapped to a sentinel is the
  same universe as the type of what the unwrapping returns.
\<close>

datatype 'a js_value = Undefined | Null | Value 'a

subsection \<open>Caller-supplied functions\<close>

text \<open>
  A function handed to the library may do anything a function of the host language can:
  change the caller's state, and throw any value instead of returning. A call is a
  function from the state before it to the outcome (\<open>Inl\<close> the thrown value, \<open>Inr\<close>
  the returned one) and the state after it.
\<close>

type_synonym ('s, 'x, 'a) call = "'s \<Rightarrow> ('x + 'a) \<times> 's"

definition returns :: "'a \<Rightarrow> ('s, 'x, 'a) call" where
  "returns v = (\<lambda>s. (Inr v, s))"

definition throws :: "'x \<Rightarrow> ('s, 'x, 'a) call" where
  "throws x = (\<lambda>s. (Inl x, s))"

text \<open>
  \<open>pass m k\<close> evaluates the argument \<open>m\<close> and passes its value to \<open>k\<close>; when \<open>m\<close>
  throws, \<open>k\<close> is not entered and the thrown value and the state are those of \<open>m\<close>.
\<close>

definition pass :: "('s, 'x, 'a) call \<Rightarrow> ('a \<Rightarrow> ('s, 'x, 'b) call) \<Rightarrow> ('s, 'x, 'b) call" where
  "pass m k = (\<lambda>s. case m s of (Inl x, s') \<Rightarrow> (Inl x, s') | (Inr v, s') \<Rightarrow> k v s')"

text \<open>A caller-supplied function that neither throws nor touches the state.\<close>

definition lift :: "('a \<Rightarrow> 'b) \<Rightarrow> 'a \<Rightarrow> ('s, 'x, 'b) call" where
  "lift f a = returns (f a)"

section \<open>The operations\<close>

subsection \<open>Constructors and predicates\<close>

definition ok :: "'t \<Rightarrow> ('t, 'e) Result" where
  "ok d = Ok d"

definition err :: "'e \<Rightarrow> ('t, 'e) Result" where
  "err e = Err e"

definition isOk :: "('t, 'e) Result \<Rightarrow> bool" where
  "isOk result = success result"

definition isErr :: "('t, 'e) Result \<Rightarrow> bool" where
  "isErr result = (\<not> success result)"

subsection \<open>Extraction\<close>

definition expect :: "('t, 'e) Result \<Rightarrow> string \<Rightarrow> js_error + 't" where
  "expect result msg = (if success result then Inr (data result) else Inl (new_Error msg))"

definition unwrap :: "('t, 'e) Result \<Rightarrow> js_error + 't" where
  "unwrap result =
     (if success result then Inr (data result) else Inl (new_Error ''unsuccessful result''))"

definition unwrapOrDefault :: "('t, 'e) Result \<Rightarrow> 't \<Rightarrow> 't" where
  "unwrapOrDefault result defaultValue = (if success result then data result else defaultValue)"

definition unwrapOrElse :: "('t, 'e) Result \<Rightarrow> ('e \<Rightarrow> ('s, 'x, 't) call) \<Rightarrow> ('s, 'x, 't) call" where
  "unwrapOrElse result func = (if success result then returns (data result) else func (error result))"

definition unwrapOrUndefined :: "('a js_value, 'e) Result \<Rightarrow> 'a js_value" where
  "unwrapOrUndefined result = (if success result then data result else Undefined)"

definition unwrapOrNull :: "('a js_value, 'e) Result \<Rightarrow> 'a js_value" where
  "unwrapOrNull result = (if success result then data result else Null)"

subsection \<open>Transformation\<close>

text \<open>
  In the failure branch \<open>mapResultData\<close> returns its argument itself; the result type
  changes its first parameter only, so the value returned is the \<open>Err\<close> with the same
  \<open>error\<close> field. \<open>mapResultError\<close> is the mirror image.
\<close>

definition mapResultData ::
  "('t, 'e) Result \<Rightarrow> ('t \<Rightarrow> ('s, 'x, 't2) call) \<Rightarrow> ('s, 'x, ('t2, 'e) Result) call" where
  "mapResultData result func =
     (if success result then pass (func (data result)) (\<lambda>v. returns (ok v))
      else returns (Err (error result)))"

definition mapResultDataOrDefault ::
  "('t, 'e) Result \<Rightarrow> ('t \<Rightarrow> ('s, 'x, 't2) call) \<Rightarrow> 't2 \<Rightarrow> ('s, 'x, ('t2, 'e2) Result) call" where
  "mapResultDataOrDefault result func defaultValue =
     (if success result then pass (func (data result)) (\<lambda>v. returns (ok v))
      else returns (ok defaultValue))"

definition mapResultError ::
  "('t, 'e) Result \<Rightarrow> ('e \<Rightarrow> ('s, 'x, 'e2) call) \<Rightarrow> ('s, 'x, ('t, 'e2) Result) call" where
  "mapResultError result func =
     (if success result then returns (Ok (data result))
      else pass (func (error result)) (\<lambda>v. returns (err v)))"

section \<open>Basic facts\<close>

lemma pass_returns [simp]: "pass (returns v) k = k v"
  by (simp add: pass_def returns_def)

lemma pass_throws [simp]: "pass (throws x) k = throws x"
  by (simp add: pass_def throws_def)

lemma returns_apply [simp]: "returns v s = (Inr v, s)"
  by (simp add: returns_def)

lemma throws_apply [simp]: "throws x s = (Inl x, s)"
  by (simp add: throws_def)

lemma pass_apply_Inr: "m s = (Inr v, s') \<Longrightarrow> pass m k s = k v s'"
  by (simp add: pass_def)

lemma pass_apply_Inl: "m s = (Inl x, s') \<Longrightarrow> pass m k s = (Inl x, s')"
  by (simp add: pass_def)

lemma lift_apply [simp]: "lift f a s = (Inr (f a), s)"
  by (simp add: lift_def)

lemma Result_variants: "(\<exists>d. r = ok d) \<or> (\<exists>e. r = err e)"
  by (cases r) (simp_all add: ok_def err_def)

section \<open>Predicates\<close>

text \<open>
  C8. \<open>isOk\<close> is true of every \<open>ok d\<close> and false of every \<open>err e\<close>, \<open>isErr\<close> the other
  way round; on every result the two predicates disagree, \<open>isErr\<close> being the negation
  of \<open>isOk\<close>.
\<close>

theorem isOk_isErr_exclusive:
  "isOk (ok d :: ('t, 'e) Result) = True \<and> isErr (ok d :: ('t, 'e) Result) = False
   \<and> isOk (err e :: ('t, 'e) Result) = False \<and> isErr (err e :: ('t, 'e) Result) = True
   \<and> isOk (r :: ('t, 'e) Result) \<noteq> isErr r
   \<and> isErr r = (\<not> isOk r)"
  by (simp add: isOk_def isErr_def ok_def err_def)

section \<open>Failing extraction\<close>

text \<open>
  C1, as stated: \<open>unwrap (err e)\<close> raises an error of the kind \<open>UnsuccessfulResult\<close>.
  The thrown object is a plain \<open>Error\<close>: at \<open>err ''error''\<close> the call fails and the
  name of what it throws is not \<open>UnsuccessfulResult\<close>.
\<close>

theorem unwrap_kind_counterexample:
  "isl (unwrap (err ''error'' :: (int, string) Result))
   \<and> name (projl (unwrap (err ''error'' :: (int, string) Result))) \<noteq> ''UnsuccessfulResult''"
  by (simp add: unwrap_def err_def new_Error_def)

text \<open>
  C1, amended: \<open>unwrap (ok d)\<close> returns \<open>d\<close>; \<open>unwrap (err e)\<close> fails, throwing a plain
  \<open>Error\<close> (the name of the built-in class, no kind of its own) whose message is the
  fixed string \<open>unsuccessful result\<close>, whatever \<open>e\<close> is.
\<close>

theorem unwrap_returns_data_or_throws_Error:
  "unwrap (ok d :: ('t, 'e) Result) = Inr d
   \<and> unwrap (err e :: ('t, 'e) Result) = Inl \<lparr>name = ''Error'', message = ''unsuccessful result''\<rparr>"
  by (simp add: unwrap_def ok_def err_def new_Error_def)

text \<open>
  C2, as stated: \<open>expect (err e) m\<close> raises an error of the kind \<open>UnmetExpectation\<close>.
  The thrown object is a plain \<open>Error\<close>: at \<open>err ''error''\<close> and the message
  \<open>error\<close> the call fails and the name of what it throws is not \<open>UnmetExpectation\<close>.
\<close>

theorem expect_kind_counterexample:
  "isl (expect (err ''error'' :: (int, string) Result) ''error'')
   \<and> name (projl (expect (err ''error'' :: (int, string) Result) ''error'')) \<noteq> ''UnmetExpectation''"
  by (simp add: expect_def err_def new_Error_def)

text \<open>
  C2, amended: \<open>expect (ok d) m\<close> returns \<open>d\<close> for every message \<open>m\<close>;
  \<open>expect (err e) m\<close> fails, throwing a plain \<open>Error\<close> (the name of the built-in class,
  no kind of its own) whose message is \<open>m\<close>, character for character.
\<close>

theorem expect_returns_data_or_throws_Error:
  "expect (ok d :: ('t, 'e) Result) m = Inr d
   \<and> expect (err e :: ('t, 'e) Result) m = Inl \<lparr>name = ''Error'', message = m\<rparr>"
  by (simp add: expect_def ok_def err_def new_Error_def)

text \<open>
  C9. On every result \<open>unwrap\<close> is \<open>expect\<close> with the message
  \<open>unsuccessful result\<close>: the same data on \<open>Ok\<close>, the same thrown object on
  \<open>Err\<close>. Whatever the message and the errors carried, a failure of \<open>expect\<close> and a
  failure of \<open>unwrap\<close> throw objects of the same name; they carry the message given
  to \<open>expect\<close> and the fixed message of \<open>unwrap\<close>, and are the same failure exactly
  when these two messages are the same.
\<close>

theorem unwrap_is_expect_with_fixed_message:
  "unwrap r = expect r ''unsuccessful result''
   \<and> unwrap (ok d :: ('t, 'e) Result) = Inr d
   \<and> expect (ok d :: ('t, 'e) Result) ''unsuccessful result'' = Inr d
   \<and> isl (expect (err e :: ('t, 'e) Result) m)
   \<and> isl (unwrap (err e' :: ('t, 'e) Result))
   \<and> name (projl (expect (err e :: ('t, 'e) Result) m)) = name (projl (unwrap (err e' :: ('t, 'e) Result)))
   \<and> message (projl (expect (err e :: ('t, 'e) Result) m)) = m
   \<and> message (projl (unwrap (err e' :: ('t, 'e) Result))) = ''unsuccessful result''
   \<and> (expect (err e :: ('t, 'e) Result) m = unwrap (err e' :: ('t, 'e) Result)) = (m = ''unsuccessful result'')"
  by (auto simp add: unwrap_def expect_def ok_def err_def new_Error_def)

section \<open>Extraction that does not fail\<close>

text \<open>
  C6. Each of \<open>unwrapOrDefault\<close>, \<open>unwrapOrElse\<close>, \<open>unwrapOrUndefined\<close> and
  \<open>unwrapOrNull\<close> returns the data of an \<open>Ok\<close> (and \<open>unwrapOrElse\<close> leaves the
  caller's function alone: the state is untouched whatever the function is). On an
  \<open>Err\<close> carrying \<open>e\<close> they return the default, the outcome of the function at \<open>e\<close>,
  \<open>Undefined\<close> and \<open>Null\<close>, and the two sentinels differ.
\<close>

theorem unwrapOr_variants:
  "unwrapOrDefault (ok d) dv = d
   \<and> unwrapOrDefault (err e) dv = dv
   \<and> unwrapOrElse (ok d) func s = (Inr d, s)
   \<and> unwrapOrElse (err e) func s = func e s
   \<and> unwrapOrElse (err e) (lift f) s = (Inr (f e), s)
   \<and> unwrapOrUndefined (ok v) = v
   \<and> unwrapOrUndefined (err e) = Undefined
   \<and> unwrapOrNull (ok v) = v
   \<and> unwrapOrNull (err e) = Null
   \<and> unwrapOrUndefined (err e) \<noteq> unwrapOrNull (err e')"
  by (simp add: unwrapOrDefault_def unwrapOrElse_def unwrapOrUndefined_def unwrapOrNull_def
      ok_def err_def)

section \<open>Transformation\<close>

text \<open>
  C3. On an \<open>Ok\<close> carrying \<open>d\<close>, \<open>mapResultData\<close> returns \<open>ok\<close> of what the function
  returns at \<open>d\<close>. On an \<open>Err\<close> it returns that \<open>Err\<close> and the function is not called:
  the outcome and the state after the call are the same for every function, also for
  one that throws or changes the state whenever it is called.
\<close>

theorem mapResultData_Ok_Err:
  "(func d s = (Inr v, s') \<longrightarrow> mapResultData (ok d) func s = (Inr (ok v), s'))
   \<and> mapResultData (ok d) (lift f) s = (Inr (ok (f d)), s)
   \<and> mapResultData (err e) func s = (Inr (err e), s)"
  by (simp add: mapResultData_def ok_def err_def pass_def)

theorem mapResultData_Ok_Err_witness:
  "mapResultData (ok 1 :: (int, string) Result) (\<lambda>a n. (Inr (a + 1) :: unit + int, Suc n)) 0
     = (Inr (ok 2), 1)
   \<and> mapResultData (err ''error'' :: (int, string) Result) (\<lambda>a n. (Inl (), Suc n) :: (unit + int) \<times> nat) 0
     = (Inr (err ''error''), 0)"
proof -
  let ?inc = "\<lambda>(a::int) (n::nat). (Inr (a + 1) :: unit + int, Suc n)"
  let ?bad = "\<lambda>(a::int) (n::nat). (Inl () :: unit + int, Suc n)"
  have called: "?inc 1 0 = (Inr 2, 1)"
    by simp
  note at_ok = mapResultData_Ok_Err
    [where func = ?inc and d = 1 and s = 0 and v = 2 and s' = 1
       and f = "\<lambda>a. a" and e = "''error''"]
  note at_err = mapResultData_Ok_Err
    [where func = ?bad and d = 1 and s = 0 and v = 2 and s' = 1
       and f = "\<lambda>a. a" and e = "''error''"]
  from at_ok called
  have "mapResultData (ok 1 :: (int, string) Result) ?inc 0 = (Inr (ok 2), 1)"
    by blast
  moreover from at_err
  have "mapResultData (err ''error'' :: (int, string) Result) ?bad 0 = (Inr (err ''error''), 0)"
    by blast
  ultimately show ?thesis
    by simp
qed

text \<open>
  C4. On an \<open>Ok\<close> carrying \<open>d\<close>, \<open>mapResultDataOrDefault\<close> returns \<open>ok\<close> of what the
  function returns at \<open>d\<close>; on an \<open>Err\<close> it returns \<open>ok\<close> of the default value, without
  calling the function. Whatever it returns is an \<open>Ok\<close>.
\<close>

theorem mapResultDataOrDefault_always_Ok:
  "(func d s = (Inr v, s') \<longrightarrow> mapResultDataOrDefault (ok d) func dv s = (Inr (ok v), s'))
   \<and> mapResultDataOrDefault (ok d) (lift f) dv s = (Inr (ok (f d)), s)
   \<and> mapResultDataOrDefault (err e) func dv s = (Inr (ok dv), s)
   \<and> (mapResultDataOrDefault r func dv s = (Inr r', s'') \<longrightarrow> isOk r')"
proof -
  have "mapResultDataOrDefault r func dv s = (Inr r', s'') \<Longrightarrow> isOk r'"
    by (cases r; cases "func (data r) s"; cases "fst (func (data r) s)")
       (auto simp add: mapResultDataOrDefault_def ok_def isOk_def pass_def)
  then show ?thesis
    by (simp add: mapResultDataOrDefault_def ok_def err_def pass_def)
qed

theorem mapResultDataOrDefault_always_Ok_witness:
  "mapResultDataOrDefault (ok 1 :: (int, string) Result) (\<lambda>a n. (Inr (a + 1) :: unit + int, Suc n)) 7 0
     = (Inr (ok 2 :: (int, string) Result), 1)
   \<and> isOk (ok 2 :: (int, string) Result)
   \<and> mapResultDataOrDefault (err ''error'' :: (int, string) Result) (\<lambda>a n. (Inr (a + 1) :: unit + int, Suc n)) 7 0
     = (Inr (ok 7 :: (int, string) Result), 0)"
proof -
  let ?inc = "\<lambda>(a::int) (n::nat). (Inr (a + 1) :: unit + int, Suc n)"
  have called: "?inc 1 0 = (Inr 2, 1)"
    by simp
  note inst = mapResultDataOrDefault_always_Ok
    [where func = ?inc and d = 1 and s = 0 and v = 2 and s' = 1 and dv = 7
       and r = "ok 1 :: (int, string) Result" and r' = "ok 2 :: (int, string) Result"
       and s'' = 1 and e = "''error''" and f = "\<lambda>a. a"]
  from inst called
  have 1: "mapResultDataOrDefault (ok 1 :: (int, string) Result) ?inc 7 0
             = (Inr (ok 2 :: (int, string) Result), 1)"
    by blast
  from inst 1 have 2: "isOk (ok 2 :: (int, string) Result)"
    by blast
  from inst
  have 3: "mapResultDataOrDefault (err ''error'' :: (int, string) Result) ?inc 7 0
             = (Inr (ok 7 :: (int, string) Result), 0)"
    by blast
  from 1 2 3 show ?thesis
    by simp
qed

text \<open>
  C5. On an \<open>Err\<close> carrying \<open>e\<close>, \<open>mapResultError\<close> returns \<open>err\<close> of what the function
  returns at \<open>e\<close>. On an \<open>Ok\<close> it returns that \<open>Ok\<close> and the function is not called:
  the outcome and the state after the call are the same for every function.
\<close>

theorem mapResultError_Err_Ok:
  "(func e s = (Inr v, s') \<longrightarrow> mapResultError (err e) func s = (Inr (err v), s'))
   \<and> mapResultError (err e) (lift f) s = (Inr (err (f e)), s)
   \<and> mapResultError (ok d) func s = (Inr (ok d), s)"
  by (simp add: mapResultError_def ok_def err_def pass_def)

theorem mapResultError_Err_Ok_witness:
  "mapResultError (err ''error'' :: (int, string) Result)
       (\<lambda>a n. (Inr (a @ ''error'') :: unit + string, Suc n)) 0
     = (Inr (err ''errorerror''), 1)
   \<and> mapResultError (ok 1 :: (int, string) Result) (\<lambda>a n. (Inl (), Suc n) :: (unit + string) \<times> nat) 0
     = (Inr (ok 1), 0)"
proof -
  let ?app = "\<lambda>(a::string) (n::nat). (Inr (a @ ''error'') :: unit + string, Suc n)"
  let ?bad = "\<lambda>(a::string) (n::nat). (Inl () :: unit + string, Suc n)"
  have called: "?app ''error'' 0 = (Inr ''errorerror'', 1)"
    by simp
  note at_err = mapResultError_Err_Ok
    [where func = ?app and e = "''error''" and s = 0 and v = "''errorerror''" and s' = 1
       and f = "\<lambda>a. a" and d = 1]
  note at_ok = mapResultError_Err_Ok
    [where func = ?bad and e = "''error''" and s = 0 and v = "''errorerror''" and s' = 1
       and f = "\<lambda>a. a" and d = 1]
  from at_err called
  have "mapResultError (err ''error'' :: (int, string) Result) ?app 0 = (Inr (err ''errorerror''), 1)"
    by blast
  moreover from at_ok
  have "mapResultError (ok 1 :: (int, string) Result) ?bad 0 = (Inr (ok 1), 0)"
    by blast
  ultimately show ?thesis
    by simp
qed

text \<open>
  C10. \<open>mapResultData\<close> is a functor on the data channel. Mapping \<open>f\<close> and then \<open>g\<close> is
  mapping the function that applies \<open>f\<close> and passes what it returns to \<open>g\<close>; this holds
  for functions that throw or change the state as well, and in particular for total
  functions \<open>p\<close> and \<open>q\<close> and their composition. Mapping the identity returns a result
  equal to the argument.
\<close>

theorem mapResultData_functor:
  "pass (mapResultData r f) (\<lambda>r'. mapResultData r' g) = mapResultData r (\<lambda>d. pass (f d) g)
   \<and> pass (mapResultData r (lift p)) (\<lambda>r'. mapResultData r' (lift q)) = mapResultData r (lift (q \<circ> p))
   \<and> mapResultData r (lift (\<lambda>a. a)) = returns r"
proof (intro conjI)
  show "pass (mapResultData r f) (\<lambda>r'. mapResultData r' g) = mapResultData r (\<lambda>d. pass (f d) g)"
    by (cases r)
       (auto simp add: mapResultData_def pass_def ok_def fun_eq_iff split: prod.splits sum.splits)
  show "pass (mapResultData r (lift p)) (\<lambda>r'. mapResultData r' (lift q)) = mapResultData r (lift (q \<circ> p))"
    by (cases r) (simp_all add: mapResultData_def pass_def ok_def lift_def fun_eq_iff)
  show "mapResultData r (lift (\<lambda>a. a)) = returns r"
    by (cases r) (simp_all add: mapResultData_def pass_def ok_def lift_def fun_eq_iff)
qed

section \<open>Where failures come from\<close>

text \<open>
  C7. \<open>unwrapOrElse\<close> and the three mapping operations fail exactly when the caller's
  function is called and fails. If one of them fails, the result is of the variant at
  which the function is called and the function fails there with the same thrown value
  and the same state; and if the function fails at the payload, the operation fails with
  that thrown value and that state, neither caught nor changed. With a function that
  does not fail they return on every result. The bodies of \<open>ok\<close>, \<open>err\<close>, \<open>isOk\<close>,
  \<open>isErr\<close>, \<open>unwrapOrDefault\<close>, \<open>unwrapOrUndefined\<close> and \<open>unwrapOrNull\<close> throw
  nothing and call nothing: they are total functions whose type has no failure outcome,
  and every result is of one of the two variants, at which each of them has its value.
  \<open>expect\<close> and \<open>unwrap\<close> do fail, on every \<open>Err\<close>.
\<close>

theorem only_expect_and_unwrap_raise:
  "(unwrapOrElse r1 fe s = (Inl x, s') \<longrightarrow> (\<exists>e. r1 = err e \<and> fe e s = (Inl x, s')))
   \<and> (fe e1 s = (Inl x, s') \<longrightarrow> unwrapOrElse (err e1) fe s = (Inl x, s'))
   \<and> (mapResultData r2 fd s = (Inl x, s') \<longrightarrow> (\<exists>d. r2 = ok d \<and> fd d s = (Inl x, s')))
   \<and> (fd d2 s = (Inl x, s') \<longrightarrow> mapResultData (ok d2) fd s = (Inl x, s'))
   \<and> (mapResultDataOrDefault r3 fd dv s = (Inl x, s') \<longrightarrow> (\<exists>d. r3 = ok d \<and> fd d s = (Inl x, s')))
   \<and> (fd d2 s = (Inl x, s') \<longrightarrow> mapResultDataOrDefault (ok d2) fd dv s = (Inl x, s'))
   \<and> (mapResultError r4 fm s = (Inl x, s') \<longrightarrow> (\<exists>e. r4 = err e \<and> fm e s = (Inl x, s')))
   \<and> (fm e4 s = (Inl x, s') \<longrightarrow> mapResultError (err e4) fm s = (Inl x, s'))
   \<and> (\<exists>v. unwrapOrElse r1 (lift ge) s = (Inr v, s))
   \<and> (\<exists>v. mapResultData r2 (lift gd) s = (Inr v, s))
   \<and> (\<exists>v. mapResultDataOrDefault r3 (lift gd) dv s = (Inr v, s))
   \<and> (\<exists>v. mapResultError r4 (lift gm) s = (Inr v, s))
   \<and> ((\<exists>d. r5 = ok d \<and> isOk r5 = True \<and> isErr r5 = False \<and> unwrapOrDefault r5 dv5 = d
            \<and> unwrapOrUndefined r5 = d \<and> unwrapOrNull r5 = d)
        \<or> (\<exists>e. r5 = err e \<and> isOk r5 = False \<and> isErr r5 = True \<and> unwrapOrDefault r5 dv5 = dv5
            \<and> unwrapOrUndefined r5 = Undefined \<and> unwrapOrNull r5 = Null))
   \<and> isl (expect (err e0) m) \<and> isl (unwrap (err e0))"
proof -
  have 1: "unwrapOrElse r1 fe s = (Inl x, s') \<Longrightarrow> \<exists>e. r1 = err e \<and> fe e s = (Inl x, s')"
    by (cases r1) (simp_all add: unwrapOrElse_def err_def)
  have 2: "mapResultData r2 fd s = (Inl x, s') \<Longrightarrow> \<exists>d. r2 = ok d \<and> fd d s = (Inl x, s')"
    by (cases r2) (auto simp add: mapResultData_def ok_def pass_def split: prod.splits sum.splits)
  have 3: "mapResultDataOrDefault r3 fd dv s = (Inl x, s') \<Longrightarrow> \<exists>d. r3 = ok d \<and> fd d s = (Inl x, s')"
    by (cases r3)
       (auto simp add: mapResultDataOrDefault_def ok_def pass_def split: prod.splits sum.splits)
  have 4: "mapResultError r4 fm s = (Inl x, s') \<Longrightarrow> \<exists>e. r4 = err e \<and> fm e s = (Inl x, s')"
    by (cases r4) (auto simp add: mapResultError_def err_def pass_def split: prod.splits sum.splits)
  have 5: "isl (expect (err e0) m) \<and> isl (unwrap (err e0))"
    by (simp add: expect_def unwrap_def err_def)
  have 6: "fe e1 s = (Inl x, s') \<Longrightarrow> unwrapOrElse (err e1) fe s = (Inl x, s')"
    by (simp add: unwrapOrElse_def err_def)
  have 7: "fd d2 s = (Inl x, s') \<Longrightarrow> mapResultData (ok d2) fd s = (Inl x, s')"
    by (simp add: mapResultData_def ok_def pass_apply_Inl)
  have 8: "fd d2 s = (Inl x, s') \<Longrightarrow> mapResultDataOrDefault (ok d2) fd dv s = (Inl x, s')"
    by (simp add: mapResultDataOrDefault_def ok_def pass_apply_Inl)
  have 9: "fm e4 s = (Inl x, s') \<Longrightarrow> mapResultError (err e4) fm s = (Inl x, s')"
    by (simp add: mapResultError_def err_def pass_apply_Inl)
  have 10: "\<exists>v. unwrapOrElse r1 (lift ge) s = (Inr v, s)"
    by (cases r1) (simp_all add: unwrapOrElse_def)
  have 11: "\<exists>v. mapResultData r2 (lift gd) s = (Inr v, s)"
    by (cases r2) (simp_all add: mapResultData_def pass_def)
  have 12: "\<exists>v. mapResultDataOrDefault r3 (lift gd) dv s = (Inr v, s)"
    by (cases r3) (simp_all add: mapResultDataOrDefault_def pass_def)
  have 13: "\<exists>v. mapResultError r4 (lift gm) s = (Inr v, s)"
    by (cases r4) (simp_all add: mapResultError_def pass_def)
  have 14: "(\<exists>d. r5 = ok d \<and> isOk r5 = True \<and> isErr r5 = False \<and> unwrapOrDefault r5 dv5 = d
              \<and> unwrapOrUndefined r5 = d \<and> unwrapOrNull r5 = d)
          \<or> (\<exists>e. r5 = err e \<and> isOk r5 = False \<and> isErr r5 = True \<and> unwrapOrDefault r5 dv5 = dv5
              \<and> unwrapOrUndefined r5 = Undefined \<and> unwrapOrNull r5 = Null)"
    by (cases r5)
       (simp_all add: ok_def err_def isOk_def isErr_def unwrapOrDefault_def
          unwrapOrUndefined_def unwrapOrNull_def)
  from 1 2 3 4 have forward:
    "(unwrapOrElse r1 fe s = (Inl x, s') \<longrightarrow> (\<exists>e. r1 = err e \<and> fe e s = (Inl x, s')))
     \<and> (mapResultData r2 fd s = (Inl x, s') \<longrightarrow> (\<exists>d. r2 = ok d \<and> fd d s = (Inl x, s')))
     \<and> (mapResultDataOrDefault r3 fd dv s = (Inl x, s') \<longrightarrow> (\<exists>d. r3 = ok d \<and> fd d s = (Inl x, s')))
     \<and> (mapResultError r4 fm s = (Inl x, s') \<longrightarrow> (\<exists>e. r4 = err e \<and> fm e s = (Inl x, s')))"
    by blast
  from 6 7 8 9 have backward:
    "(fe e1 s = (Inl x, s') \<longrightarrow> unwrapOrElse (err e1) fe s = (Inl x, s'))
     \<and> (fd d2 s = (Inl x, s') \<longrightarrow> mapResultData (ok d2) fd s = (Inl x, s'))
     \<and> (fd d2 s = (Inl x, s') \<longrightarrow> mapResultDataOrDefault (ok d2) fd dv s = (Inl x, s'))
     \<and> (fm e4 s = (Inl x, s') \<longrightarrow> mapResultError (err e4) fm s = (Inl x, s'))"
    by blast
  from forward backward 5 10 11 12 13 14 show ?thesis
    by (intro conjI) blast+
qed

theorem only_expect_and_unwrap_raise_witness:
  "(\<lambda>(e::string) (n::nat). (Inl (length e) :: nat + int, Suc n)) ''error'' 0 = (Inl 5, 1)
   \<and> (\<lambda>(d::int) (n::nat). (Inl 5 :: nat + int, Suc n)) 1 0 = (Inl 5, 1)
   \<and> (\<lambda>(e::string) (n::nat). (Inl (length e) :: nat + string, Suc n)) ''error'' 0 = (Inl 5, 1)
   \<and> unwrapOrElse (err ''error'' :: (int, string) Result) (\<lambda>e n. (Inl (length e), Suc n) :: (nat + int) \<times> nat) 0
     = (Inl 5, 1)
   \<and> mapResultData (ok 1 :: (int, string) Result) (\<lambda>d n. (Inl 5, Suc n) :: (nat + int) \<times> nat) 0
     = (Inl 5, 1 :: nat)
   \<and> mapResultDataOrDefault (ok 1 :: (int, string) Result) (\<lambda>d n. (Inl 5, Suc n) :: (nat + int) \<times> nat) 7 0
     = ((Inl 5 :: nat + (int, string) Result), 1 :: nat)
   \<and> mapResultError (err ''error'' :: (int, string) Result) (\<lambda>e n. (Inl (length e), Suc n) :: (nat + string) \<times> nat) 0
     = (Inl 5, 1)
   \<and> (\<exists>e. (err ''error'' :: (int, string) Result) = err e \<and> (Inl (length e) :: nat + int, Suc 0) = (Inl 5, 1))
   \<and> (\<exists>d. (ok 1 :: (int, string) Result) = ok d \<and> (Inl 5 :: nat + int, Suc 0) = (Inl 5, 1))
   \<and> (\<exists>e. (err ''error'' :: (int, string) Result) = err e \<and> (Inl (length e) :: nat + string, Suc 0) = (Inl 5, 1))
   \<and> (\<exists>v. mapResultData (ok 1 :: (int, string) Result) (lift (\<lambda>d. d + 1)) (0::nat)
              = (Inr v :: nat + (int, string) Result, 0))
   \<and> isl (expect (err ''error'' :: (int, string) Result) ''error'')
   \<and> isl (unwrap (err ''error'' :: (int, string) Result))"
proof -
  let ?fe = "\<lambda>(e::string) (n::nat). (Inl (length e) :: nat + int, Suc n)"
  let ?fd = "\<lambda>(d::int) (n::nat). (Inl 5 :: nat + int, Suc n)"
  let ?fm = "\<lambda>(e::string) (n::nat). (Inl (length e) :: nat + string, Suc n)"
  have f1: "?fe ''error'' 0 = (Inl 5, 1)"
    by simp
  have f2: "?fd 1 0 = (Inl 5, 1)"
    by simp
  have f4: "?fm ''error'' 0 = (Inl 5, 1)"
    by simp
  note inst = only_expect_and_unwrap_raise
    [where ?r1.0 = "err ''error'' :: (int, string) Result" and fe = ?fe and s = 0 and x = 5 and s' = 1
       and ?e1.0 = "''error''"
       and ?r2.0 = "ok 1 :: (int, string) Result" and fd = ?fd and ?d2.0 = 1
       and ?r3.0 = "ok 1 :: (int, string) Result" and dv = 7
       and ?r4.0 = "err ''error'' :: (int, string) Result" and fm = ?fm and ?e4.0 = "''error''"
       and ge = "\<lambda>e. 0" and gd = "\<lambda>d. d + 1" and gm = "\<lambda>e. e"
       and ?r5.0 = "err ''error'' :: (int js_value, string) Result" and ?dv5.0 = Null
       and ?e0.0 = "''error''" and m = "''error''"]
  from inst f1 have h1: "unwrapOrElse (err ''error'' :: (int, string) Result) ?fe 0 = (Inl 5, 1)"
    by blast
  from inst f2 have h2: "mapResultData (ok 1 :: (int, string) Result) ?fd 0 = (Inl 5, 1)"
    by blast
  from inst f2 have h3: "mapResultDataOrDefault (ok 1 :: (int, string) Result) ?fd 7 0
              = ((Inl 5 :: nat + (int, string) Result), 1)"
    by blast
  from inst f4 have h4: "mapResultError (err ''error'' :: (int, string) Result) ?fm 0 = (Inl 5, 1)"
    by blast
  from inst h1 have c1: "\<exists>e. (err ''error'' :: (int, string) Result) = err e \<and> ?fe e 0 = (Inl 5, 1)"
    by blast
  from inst h2 have c2: "\<exists>d. (ok 1 :: (int, string) Result) = ok d \<and> ?fd d 0 = (Inl 5, 1)"
    by blast
  from inst h4 have c4: "\<exists>e. (err ''error'' :: (int, string) Result) = err e \<and> ?fm e 0 = (Inl 5, 1)"
    by blast
  from inst have c5: "isl (expect (err ''error'' :: (int, string) Result) ''error'')
      \<and> isl (unwrap (err ''error'' :: (int, string) Result))"
    by blast
  from inst have c6: "\<exists>v. mapResultData (ok 1 :: (int, string) Result) (lift (\<lambda>d. d + 1)) (0::nat)
              = (Inr v :: nat + (int, string) Result, 0)"
    by blast
  from h1 h2 h3 h4 c1 c2 c4 c5 c6 show ?thesis
    by simp
qed

end
